theory Spec2Isabelle
  imports Main
begin

section \<open>The script \<open>fetch_github_standards.py\<close> as state-passing functions\<close>

text \<open>
  The script talks to four things outside itself: the console (\<open>print\<close>), the logging
  module with its log file, the file system (the directory \<open>logs\<close>) and the network
  (\<open>requests.get\<close>). The model threads a record \<open>world\<close> of these through every call.
  A call returns a pair: \<open>Inr v\<close> for a normal return of \<open>v\<close> or \<open>Inl e\<close> for a raised
  exception \<open>e\<close>, and the world as the call left it. What an exception leaves behind
  (a line already printed, a request already sent) stays in the world.
\<close>

subsection \<open>Python strings\<close>

text \<open>
  A Python \<open>str\<close> is a sequence of code points, so a string of the model is a list of
  code points (\<open>nat\<close>) and \<open>length\<close> and \<open>take\<close> count what Python's \<open>len\<close> and slicing
  count. \<open>lit\<close> reads a literal of the source.
\<close>

type_synonym pystr = "nat list"

definition lit :: "string \<Rightarrow> pystr" where
  "lit s = map of_char s"

text \<open>
  \<open>str.lower\<close>, on the ASCII letters. Python lowers the cased letters beyond ASCII as
  well; none of them is lowered to a string of the table \<open>logging_functions\<close> below, so
  the lookup made with the result is the same.
\<close>

definition lower_char :: "nat \<Rightarrow> nat" where
  "lower_char c = (if 65 \<le> c \<and> c \<le> 90 then c + 32 else c)"

definition lower :: "pystr \<Rightarrow> pystr" where
  "lower s = map lower_char s"

subsection \<open>Exceptions\<close>

text \<open>
  An exception is its class and the text \<open>str(e)\<close>. Every exception of the model is
  raised by a call the script makes and is an instance of \<open>Exception\<close>, the class the
  handler of \<open>fetch_standards\<close> names; an interrupt delivered from outside
  (\<open>KeyboardInterrupt\<close>) is not modelled.
\<close>

datatype exc_class =
  ConnectionError | Timeout | HTTPError | AttributeError
  | FileNotFoundError | NotADirectoryError | FileExistsError
  | BrokenPipeError | ValueError

datatype pyexc = PyExc (exc_class: exc_class) (exc_str: pystr)

subsection \<open>The world\<close>

datatype severity = DEBUG | INFO | WARNING | ERROR | CRITICAL

datatype entry = Absent | Directory | RegularFile

record response =
  status_code :: nat
  reason :: pystr
  resp_url :: pystr
  resp_text :: pystr

datatype get_result = Raises pyexc | Returns response

text \<open>
  \<^item> \<open>cwd\<close>: the working directory of the process;
  \<^item> \<open>logs_entry\<close>: what the name \<open>logs\<close> is in the working directory;
  \<^item> \<open>log_file\<close>: the records of \<open>logs/fetch_github_standards.log\<close>, oldest first, each
    with its level name and message (the time stamp of the line format is left out);
  \<^item> \<open>console\<close>: the strings passed to \<open>print\<close>, oldest first, one per call;
  \<^item> \<open>stdout_faults\<close>: what the console does with the coming writes, one entry per
    call of \<open>print\<close>: \<open>None\<close> accepts the write, \<open>Some e\<close> raises \<open>e\<close>; past the end of the
    list every write is accepted;
  \<^item> \<open>http\<close>: what \<open>requests.get\<close> does for each URL: raise, or return a response. The
    script never changes it: the server is static;
  \<^item> \<open>sent\<close>: the URLs requested so far.
\<close>

record world =
  cwd :: pystr
  logs_entry :: entry
  log_file :: "(severity \<times> pystr) list"
  console :: "pystr list"
  stdout_faults :: "pyexc option list"
  http :: "pystr \<Rightarrow> get_result"
  sent :: "pystr list"

type_synonym 'a call = "world \<Rightarrow> (pyexc + 'a) \<times> world"

text \<open>Statement sequencing: an exception of the first call skips the rest.\<close>

definition and_then :: "'a call \<Rightarrow> ('a \<Rightarrow> 'b call) \<Rightarrow> 'b call" where
  "and_then m f w = (case m w of (Inl e, w1) \<Rightarrow> (Inl e, w1) | (Inr x, w1) \<Rightarrow> f x w1)"

definition return :: "'a \<Rightarrow> 'a call" where
  "return x w = (Inr x, w)"

text \<open>A call that touches nothing of the world: it raises or returns, as \<open>x\<close> says.\<close>

definition pure_call :: "pyexc + 'a \<Rightarrow> 'a call" where
  "pure_call x w = (x, w)"

subsection \<open>The library calls the script makes\<close>

text \<open>
  These are not code of the repository; each is modelled by what the library documents,
  as far as the script can observe it.
\<close>

text \<open>\<open>print(s)\<close>: one write of \<open>s\<close> to the console, or the fault the console has for it.\<close>

fun write_ok :: "pyexc option list \<Rightarrow> bool" where
  "write_ok (Some e # fs) = False"
| "write_ok fs = True"

definition print :: "pystr \<Rightarrow> unit call" where
  "print s w =
     (case stdout_faults w of
        Some e # fs \<Rightarrow> (Inl e, w\<lparr>stdout_faults := fs\<rparr>)
      | _ \<Rightarrow> (Inr (), w\<lparr>console := console w @ [s], stdout_faults := tl (stdout_faults w)\<rparr>))"

text \<open>colorama's \<open>Fore\<close>: the ANSI sequence (ESC, a bracket, the colour number, m).\<close>

datatype fore = GREEN | YELLOW | RED | WHITE

fun Fore :: "fore \<Rightarrow> pystr" where
  "Fore GREEN = 27 # lit ''[32m''"
| "Fore YELLOW = 27 # lit ''[33m''"
| "Fore RED = 27 # lit ''[31m''"
| "Fore WHITE = 27 # lit ''[37m''"

text \<open>
  The module-level functions of \<open>logging\<close> that log a message at a level. Any other name
  is modelled as no attribute of the module: that is exact for a name such as \<open>foo\<close>, and
  the statements below use the table at no other name.
\<close>

definition logging_functions :: "pystr \<Rightarrow> severity option" where
  "logging_functions =
     map_of [(lit ''debug'', DEBUG), (lit ''info'', INFO), (lit ''warning'', WARNING),
             (lit ''error'', ERROR), (lit ''critical'', CRITICAL)]"

fun levelno :: "severity \<Rightarrow> nat" where
  "levelno DEBUG = 10"
| "levelno INFO = 20"
| "levelno WARNING = 30"
| "levelno ERROR = 40"
| "levelno CRITICAL = 50"

text \<open>
  \<open>getattr(logging, name)(message)\<close>, with the root logger as line 20 configures it: a
  file handler on the log file and the threshold \<open>logging.INFO\<close>. A record under the
  threshold is dropped; a handler that cannot write reports on stderr and does not raise.
\<close>

definition logging_call :: "pystr \<Rightarrow> pystr \<Rightarrow> unit call" where
  "logging_call name message w =
     (case logging_functions name of
        None \<Rightarrow>
          (Inl (PyExc AttributeError
                 (lit ''module '' @ [39] @ lit ''logging'' @ [39] @ lit '' has no attribute ''
                  @ [39] @ name @ [39])), w)
      | Some lvl \<Rightarrow>
          (Inr (), if levelno INFO \<le> levelno lvl
                   then w\<lparr>log_file := log_file w @ [(lvl, message)]\<rparr> else w))"

text \<open>
  \<open>logging.basicConfig(filename=...)\<close> opens the file for appending at once, by its
  absolute path; that needs the directory \<open>logs\<close>. (Other reasons for the open to fail,
  such as permissions, are outside the model.)
\<close>

definition basicConfig :: "pystr \<Rightarrow> unit call" where
  "basicConfig filename w =
     (case logs_entry w of
        Directory \<Rightarrow> (Inr (), w)
      | Absent \<Rightarrow>
          (Inl (PyExc FileNotFoundError
                 (lit ''[Errno 2] No such file or directory: '' @ [39] @ cwd w @ lit ''/''
                  @ filename @ [39])), w)
      | RegularFile \<Rightarrow>
          (Inl (PyExc NotADirectoryError
                 (lit ''[Errno 20] Not a directory: '' @ [39] @ cwd w @ lit ''/''
                  @ filename @ [39])), w))"

text \<open>\<open>os.makedirs(name, exist_ok=...)\<close>, for the name \<open>logs\<close>.\<close>

definition makedirs :: "pystr \<Rightarrow> bool \<Rightarrow> unit call" where
  "makedirs name exist_ok w =
     (case logs_entry w of
        Absent \<Rightarrow> (Inr (), w\<lparr>logs_entry := Directory\<rparr>)
      | Directory \<Rightarrow>
          (if exist_ok then (Inr (), w)
           else (Inl (PyExc FileExistsError
                       (lit ''[Errno 17] File exists: '' @ [39] @ name @ [39])), w))
      | RegularFile \<Rightarrow>
          (Inl (PyExc FileExistsError
                 (lit ''[Errno 17] File exists: '' @ [39] @ name @ [39])), w))"

text \<open>\<open>requests.get(url)\<close>: the request is sent, and the outcome is the server's.\<close>

definition requests_get :: "pystr \<Rightarrow> response call" where
  "requests_get u w =
     (case http w u of
        Raises e \<Rightarrow> (Inl e, w\<lparr>sent := sent w @ [u]\<rparr>)
      | Returns r \<Rightarrow> (Inr r, w\<lparr>sent := sent w @ [u]\<rparr>))"

text \<open>
  \<open>response.raise_for_status()\<close> raises for the statuses 400 to 599, which have three
  digits, and no other.
\<close>

definition str_status :: "nat \<Rightarrow> pystr" where
  "str_status n = [48 + n div 100, 48 + n div 10 mod 10, 48 + n mod 10]"

definition raise_for_status :: "response \<Rightarrow> pyexc + unit" where
  "raise_for_status r =
     (if 400 \<le> status_code r \<and> status_code r < 500 then
        Inl (PyExc HTTPError
              (str_status (status_code r) @ lit '' Client Error: '' @ reason r
               @ lit '' for url: '' @ resp_url r))
      else if 500 \<le> status_code r \<and> status_code r < 600 then
        Inl (PyExc HTTPError
              (str_status (status_code r) @ lit '' Server Error: '' @ reason r
               @ lit '' for url: '' @ resp_url r))
      else Inr ())"

subsection \<open>The script\<close>

text \<open>Lines 27 to 31. The console line goes out first, then the record.\<close>

definition colors :: "pystr \<Rightarrow> fore option" where
  "colors = map_of [(lit ''INFO'', GREEN), (lit ''WARNING'', YELLOW), (lit ''ERROR'', RED)]"

text \<open>The f-string of line 30, for the colour \<open>c\<close>.\<close>

definition console_line :: "fore \<Rightarrow> pystr \<Rightarrow> pystr" where
  "console_line c message = Fore c @ lit ''--> '' @ message"

definition log_message :: "pystr \<Rightarrow> pystr \<Rightarrow> unit call" where
  "log_message message level =
     and_then
       (print (console_line (case colors level of Some c \<Rightarrow> c | None \<Rightarrow> WHITE) message))
       (\<lambda>_. logging_call (lower level) message)"

text \<open>The f-string of line 41.\<close>

definition error_text :: "pyexc \<Rightarrow> pystr" where
  "error_text e =
     lit ''Error fetching standards: '' @ exc_str e
     @ lit ''. Ensure the URL is correct and public.''"

text \<open>
  Lines 33 to 42. \<open>try_block\<close> is the body of the \<open>try\<close>; the handler takes every
  exception of it, logs and returns \<open>None\<close>. An exception of the handler's own call
  leaves the function.
\<close>

definition try_block :: "pystr \<Rightarrow> pystr call" where
  "try_block u =
     and_then (requests_get u) (\<lambda>r.
     and_then (pure_call (raise_for_status r)) (\<lambda>_.
     and_then (log_message (lit ''Successfully fetched standards'') (lit ''INFO'')) (\<lambda>_.
     return (resp_text r))))"

definition fetch_standards :: "pystr \<Rightarrow> pystr option call" where
  "fetch_standards u w =
     (case try_block u w of
        (Inr t, w1) \<Rightarrow> (Inr (Some t), w1)
      | (Inl e, w1) \<Rightarrow>
          and_then (log_message (error_text e) (lit ''ERROR'')) (\<lambda>_. return None) w1)"

text \<open>
  Lines 49 to 51. \<open>if content:\<close> is Python's truth test: \<open>None\<close> and the empty string
  are both false.
\<close>

definition show_content :: "pystr option \<Rightarrow> unit call" where
  "show_content content =
     (case content of
        None \<Rightarrow> return ()
      | Some c \<Rightarrow>
          if c \<noteq> [] then
            and_then
              (log_message (lit ''Standards content (first 500 chars):'') (lit ''INFO''))
              (\<lambda>_. print (take 500 c))
          else return ())"

text \<open>Lines 44 to 52.\<close>

definition url :: pystr where
  "url = lit ''https://raw.githubusercontent.com/Projectbits/code_std/main/Coding%20Standards.md''"

definition main_block :: "unit call" where
  "main_block =
     and_then (makedirs (lit ''logs'') True) (\<lambda>_.
     and_then (log_message (lit ''Script started'') (lit ''INFO'')) (\<lambda>_.
     and_then (fetch_standards url) (\<lambda>content.
     and_then (show_content content) (\<lambda>_.
     log_message (lit ''Script completed'') (lit ''INFO'')))))"

text \<open>
  The whole file, run as a program: the logging configuration of line 20 runs when the
  module is loaded, before the block under \<open>__main__\<close>.
\<close>

definition script :: "unit call" where
  "script = and_then (basicConfig (lit ''logs/fetch_github_standards.log'')) (\<lambda>_. main_block)"

text \<open>
  The exit status of the interpreter: 0 when the script runs to its end, 1 when an
  exception reaches the top.
\<close>

definition exit_status :: "pyexc + unit \<Rightarrow> nat" where
  "exit_status r = (case r of Inr _ \<Rightarrow> 0 | Inl _ \<Rightarrow> 1)"

subsection \<open>Worlds to run the script in\<close>

text \<open>
  A fresh console and an empty log, in a working directory where \<open>logs\<close> is \<open>d\<close> and
  with the server \<open>h\<close>.
\<close>

definition fresh :: "entry \<Rightarrow> (pystr \<Rightarrow> get_result) \<Rightarrow> world" where
  "fresh d h =
     \<lparr>cwd = lit ''/home/user/scripts'', logs_entry = d, log_file = [], console = [],
      stdout_faults = [], http = h, sent = []\<rparr>"

text \<open>A server that answers every URL with the status \<open>n\<close> and the body \<open>b\<close>.\<close>

definition answers :: "nat \<Rightarrow> pystr \<Rightarrow> pystr \<Rightarrow> pystr \<Rightarrow> get_result" where
  "answers n phrase b u =
     Returns \<lparr>status_code = n, reason = phrase, resp_url = u, resp_text = b\<rparr>"

text \<open>A host that does not resolve.\<close>

definition unreachable :: "pystr \<Rightarrow> get_result" where
  "unreachable u = Raises (PyExc ConnectionError (lit ''Failed to resolve host''))"

section \<open>Properties\<close>

subsection \<open>The library calls and \<open>log_message\<close>, evaluated\<close>

lemma lower_levels:
  "lower (lit ''INFO'') = lit ''info''"
  "lower (lit ''WARNING'') = lit ''warning''"
  "lower (lit ''ERROR'') = lit ''error''"
  by (simp_all add: lit_def lower_def lower_char_def)

lemma colors_levels:
  "colors (lit ''INFO'') = Some GREEN"
  "colors (lit ''WARNING'') = Some YELLOW"
  "colors (lit ''ERROR'') = Some RED"
  by (simp_all add: colors_def lit_def)

lemma colors_other:
  "level \<noteq> lit ''INFO'' \<Longrightarrow> level \<noteq> lit ''WARNING'' \<Longrightarrow> level \<noteq> lit ''ERROR'' \<Longrightarrow>
   colors level = None"
  by (simp add: colors_def)

lemma logging_levels:
  "logging_functions (lit ''info'') = Some INFO"
  "logging_functions (lit ''warning'') = Some WARNING"
  "logging_functions (lit ''error'') = Some ERROR"
  by (simp_all add: logging_functions_def lit_def)

lemma print_ok:
  "write_ok (stdout_faults w) \<Longrightarrow>
   print s w = (Inr (), w\<lparr>console := console w @ [s], stdout_faults := tl (stdout_faults w)\<rparr>)"
  by (cases "stdout_faults w" rule: write_ok.cases) (simp_all add: print_def)

lemma print_fault:
  "stdout_faults w = Some e # fs \<Longrightarrow> print s w = (Inl e, w\<lparr>stdout_faults := fs\<rparr>)"
  by (simp add: print_def)

lemma print_quiet:
  "stdout_faults w = [] \<Longrightarrow> print s w = (Inr (), w\<lparr>console := console w @ [s]\<rparr>)"
  by (simp add: print_def)

lemma log_message_ok:
  assumes "write_ok (stdout_faults w)"
    and "logging_functions (lower level) = Some lvl" and "levelno INFO \<le> levelno lvl"
  shows "log_message m level w =
    (Inr (), w\<lparr>console := console w @ [console_line (case colors level of Some c \<Rightarrow> c | None \<Rightarrow> WHITE) m],
              stdout_faults := tl (stdout_faults w),
              log_file := log_file w @ [(lvl, m)]\<rparr>)"
  using assms by (simp add: log_message_def and_then_def print_ok logging_call_def)

lemma log_message_fault:
  "stdout_faults w = Some e # fs \<Longrightarrow> log_message m level w = (Inl e, w\<lparr>stdout_faults := fs\<rparr>)"
  by (simp add: log_message_def and_then_def print_fault)

lemma log_message_console:
  "write_ok (stdout_faults w) \<Longrightarrow>
   console (snd (log_message m level w)) =
     console w @ [console_line (case colors level of Some c \<Rightarrow> c | None \<Rightarrow> WHITE) m]"
  by (simp add: log_message_def and_then_def print_ok logging_call_def split: option.split)

lemma log_message_quiet:
  assumes "stdout_faults w = []"
    and "logging_functions (lower level) = Some lvl" and "levelno INFO \<le> levelno lvl"
  shows "log_message m level w =
    (Inr (), w\<lparr>console := console w @ [console_line (case colors level of Some c \<Rightarrow> c | None \<Rightarrow> WHITE) m],
              log_file := log_file w @ [(lvl, m)]\<rparr>)"
  using assms by (simp add: log_message_def and_then_def print_quiet logging_call_def)

lemma log_info_quiet:
  "stdout_faults w = [] \<Longrightarrow>
   log_message m (lit ''INFO'') w =
     (Inr (), w\<lparr>console := console w @ [console_line GREEN m],
               log_file := log_file w @ [(INFO, m)]\<rparr>)"
  by (simp add: log_message_quiet [where lvl = INFO] lower_levels logging_levels colors_levels)

lemma log_error_quiet:
  "stdout_faults w = [] \<Longrightarrow>
   log_message m (lit ''ERROR'') w =
     (Inr (), w\<lparr>console := console w @ [console_line RED m],
               log_file := log_file w @ [(ERROR, m)]\<rparr>)"
  by (simp add: log_message_quiet [where lvl = ERROR] lower_levels logging_levels colors_levels)

lemma fresh_fields:
  "cwd (fresh d h) = lit ''/home/user/scripts''" "logs_entry (fresh d h) = d"
  "log_file (fresh d h) = []" "console (fresh d h) = []" "stdout_faults (fresh d h) = []"
  "http (fresh d h) = h" "sent (fresh d h) = []"
  by (simp_all add: fresh_def)

lemma raise_for_status_2xx:
  "200 \<le> status_code r \<Longrightarrow> status_code r < 300 \<Longrightarrow> raise_for_status r = Inr ()"
  by (simp add: raise_for_status_def)

subsection \<open>\<open>fetch_standards\<close>, by the outcome of the request\<close>

lemma try_block_success:
  assumes "http w u = Returns r" and "raise_for_status r = Inr ()"
    and "write_ok (stdout_faults w)"
  shows "try_block u w =
    (Inr (resp_text r),
     w\<lparr>sent := sent w @ [u],
       console := console w @ [console_line GREEN (lit ''Successfully fetched standards'')],
       stdout_faults := tl (stdout_faults w),
       log_file := log_file w @ [(INFO, lit ''Successfully fetched standards'')]\<rparr>)"
  using assms
  by (simp add: try_block_def and_then_def requests_get_def pure_call_def return_def
      log_message_ok [where lvl = INFO] lower_levels logging_levels colors_levels)

lemma try_block_raises:
  assumes "http w u = Raises e \<or> (\<exists>r. http w u = Returns r \<and> raise_for_status r = Inl e)"
  shows "try_block u w = (Inl e, w\<lparr>sent := sent w @ [u]\<rparr>)"
  using assms
  by (auto simp add: try_block_def and_then_def requests_get_def pure_call_def)

lemma try_block_log_fault:
  assumes "http w u = Returns r" and "raise_for_status r = Inr ()"
    and "stdout_faults w = Some e # fs"
  shows "try_block u w = (Inl e, w\<lparr>sent := sent w @ [u], stdout_faults := fs\<rparr>)"
  using assms
  by (simp add: try_block_def and_then_def requests_get_def pure_call_def log_message_fault)

lemma handler_ok:
  assumes "write_ok (stdout_faults w)"
  shows "and_then (log_message (error_text e) (lit ''ERROR'')) (\<lambda>_. return None) w =
    (Inr None,
     w\<lparr>console := console w @ [console_line RED (error_text e)],
       stdout_faults := tl (stdout_faults w),
       log_file := log_file w @ [(ERROR, error_text e)]\<rparr>)"
  using assms
  by (simp add: and_then_def return_def
      log_message_ok [where lvl = ERROR] lower_levels logging_levels colors_levels)

lemma fetch_quiet_success:
  assumes "stdout_faults w = []" and "http w u = Returns r" and "raise_for_status r = Inr ()"
  shows "fetch_standards u w =
    (Inr (Some (resp_text r)),
     w\<lparr>sent := sent w @ [u],
       console := console w @ [console_line GREEN (lit ''Successfully fetched standards'')],
       log_file := log_file w @ [(INFO, lit ''Successfully fetched standards'')]\<rparr>)"
  using assms
  by (simp add: fetch_standards_def try_block_def and_then_def requests_get_def pure_call_def
      return_def log_info_quiet)

lemma fetch_quiet_failure:
  assumes "stdout_faults w = []"
    and "http w u = Raises e \<or> (\<exists>r. http w u = Returns r \<and> raise_for_status r = Inl e)"
  shows "fetch_standards u w =
    (Inr None,
     w\<lparr>sent := sent w @ [u],
       console := console w @ [console_line RED (error_text e)],
       log_file := log_file w @ [(ERROR, error_text e)]\<rparr>)"
  using assms(1)
  by (simp add: fetch_standards_def try_block_raises [OF assms(2)] and_then_def return_def
      log_error_quiet)

lemma request_cases:
  obtains (ok) r where "http w u = Returns r" and "raise_for_status r = Inr ()"
  | (failed) e where
      "http w u = Raises e \<or> (\<exists>r. http w u = Returns r \<and> raise_for_status r = Inl e)"
proof (cases "http w u")
  case (Raises e)
  then show ?thesis using failed by blast
next
  case (Returns r)
  show ?thesis
  proof (cases "raise_for_status r")
    case (Inl e)
    with Returns show ?thesis using failed by blast
  next
    case (Inr x)
    with Returns show ?thesis using ok by simp
  qed
qed

lemma fetch_quiet_keeps:
  assumes "stdout_faults w = []"
  shows "stdout_faults (snd (fetch_standards u w)) = []"
    and "http (snd (fetch_standards u w)) = http w"
    and "logs_entry (snd (fetch_standards u w)) = logs_entry w"
proof -
  have "stdout_faults (snd (fetch_standards u w)) = []
    \<and> http (snd (fetch_standards u w)) = http w
    \<and> logs_entry (snd (fetch_standards u w)) = logs_entry w"
  proof (cases rule: request_cases [of w u])
    case (ok r)
    then show ?thesis using assms by (simp add: fetch_quiet_success)
  next
    case (failed e)
    then show ?thesis using assms by (simp add: fetch_quiet_failure)
  qed
  then show "stdout_faults (snd (fetch_standards u w)) = []"
    and "http (snd (fetch_standards u w)) = http w"
    and "logs_entry (snd (fetch_standards u w)) = logs_entry w"
    by simp_all
qed

subsection \<open>The run of the script in a world whose console accepts every write\<close>

lemma show_content_quiet:
  assumes "stdout_faults w = []"
  shows "show_content None w = (Inr (), w)"
    and "show_content (Some []) w = (Inr (), w)"
    and "c \<noteq> [] \<Longrightarrow> show_content (Some c) w =
      (Inr (),
       w\<lparr>console := console w @
            [console_line GREEN (lit ''Standards content (first 500 chars):''), take 500 c],
         log_file := log_file w @ [(INFO, lit ''Standards content (first 500 chars):'')]\<rparr>)"
  using assms
  by (simp_all add: show_content_def return_def and_then_def log_info_quiet print_quiet)

lemma script_success:
  assumes "logs_entry w = Directory" and "stdout_faults w = []"
    and "http w url = Returns r" and "raise_for_status r = Inr ()" and "resp_text r \<noteq> []"
  shows "script w =
    (Inr (),
     w\<lparr>sent := sent w @ [url],
       console := console w @
         [console_line GREEN (lit ''Script started''),
          console_line GREEN (lit ''Successfully fetched standards''),
          console_line GREEN (lit ''Standards content (first 500 chars):''),
          take 500 (resp_text r),
          console_line GREEN (lit ''Script completed'')],
       log_file := log_file w @
         [(INFO, lit ''Script started''),
          (INFO, lit ''Successfully fetched standards''),
          (INFO, lit ''Standards content (first 500 chars):''),
          (INFO, lit ''Script completed'')]\<rparr>)"
  using assms
  by (simp add: script_def main_block_def and_then_def basicConfig_def makedirs_def
      log_info_quiet fetch_quiet_success show_content_quiet)

lemma script_success_empty:
  assumes "logs_entry w = Directory" and "stdout_faults w = []"
    and "http w url = Returns r" and "raise_for_status r = Inr ()" and "resp_text r = []"
  shows "script w =
    (Inr (),
     w\<lparr>sent := sent w @ [url],
       console := console w @
         [console_line GREEN (lit ''Script started''),
          console_line GREEN (lit ''Successfully fetched standards''),
          console_line GREEN (lit ''Script completed'')],
       log_file := log_file w @
         [(INFO, lit ''Script started''),
          (INFO, lit ''Successfully fetched standards''),
          (INFO, lit ''Script completed'')]\<rparr>)"
  using assms
  by (simp add: script_def main_block_def and_then_def basicConfig_def makedirs_def
      log_info_quiet fetch_quiet_success show_content_quiet)

lemma script_failure:
  assumes "logs_entry w = Directory" and "stdout_faults w = []"
    and "http w url = Raises e \<or> (\<exists>r. http w url = Returns r \<and> raise_for_status r = Inl e)"
  shows "script w =
    (Inr (),
     w\<lparr>sent := sent w @ [url],
       console := console w @
         [console_line GREEN (lit ''Script started''),
          console_line RED (error_text e),
          console_line GREEN (lit ''Script completed'')],
       log_file := log_file w @
         [(INFO, lit ''Script started''),
          (ERROR, error_text e),
          (INFO, lit ''Script completed'')]\<rparr>)"
proof -
  let ?w1 = "w\<lparr>console := console w @ [console_line GREEN (lit ''Script started'')],
               log_file := log_file w @ [(INFO, lit ''Script started'')]\<rparr>"
  have "http ?w1 url = Raises e \<or> (\<exists>r. http ?w1 url = Returns r \<and> raise_for_status r = Inl e)"
    using assms(3) by simp
  from fetch_quiet_failure [OF _ this] assms(1,2) show ?thesis
    by (simp add: script_def main_block_def and_then_def basicConfig_def makedirs_def
        log_info_quiet show_content_quiet)
qed

lemma script_quiet:
  assumes "logs_entry w = Directory" and "stdout_faults w = []"
  shows "fst (script w) = Inr ()" and "logs_entry (snd (script w)) = Directory"
    and "stdout_faults (snd (script w)) = []" and "http (snd (script w)) = http w"
proof -
  have "fst (script w) = Inr () \<and> logs_entry (snd (script w)) = Directory
    \<and> stdout_faults (snd (script w)) = [] \<and> http (snd (script w)) = http w"
  proof (cases rule: request_cases [of w url])
    case (ok r)
    show ?thesis
    proof (cases "resp_text r = []")
      case True
      with ok assms show ?thesis by (simp add: script_success_empty)
    next
      case False
      with ok assms show ?thesis by (simp add: script_success)
    qed
  next
    case (failed e)
    with assms show ?thesis by (simp add: script_failure)
  qed
  then show "fst (script w) = Inr ()" and "logs_entry (snd (script w)) = Directory"
    and "stdout_faults (snd (script w)) = []" and "http (snd (script w)) = http w"
    by simp_all
qed

subsection \<open>The block under \<open>__main__\<close>, by what \<open>logs\<close> is\<close>

lemma script_is_main_block:
  "logs_entry w = Directory \<Longrightarrow> script w = main_block w"
  by (simp add: script_def and_then_def basicConfig_def)

lemma main_block_creates:
  "logs_entry w = Absent \<Longrightarrow> main_block w = main_block (w\<lparr>logs_entry := Directory\<rparr>)"
  by (simp add: main_block_def and_then_def makedirs_def)

lemma main_block_blocked:
  "logs_entry w = RegularFile \<Longrightarrow>
   main_block w =
     (Inl (PyExc FileExistsError
            (lit ''[Errno 17] File exists: '' @ [39] @ lit ''logs'' @ [39])), w)"
  by (simp add: main_block_def and_then_def makedirs_def)

lemma main_block_quiet:
  assumes "logs_entry w = Absent \<or> logs_entry w = Directory" and "stdout_faults w = []"
  shows "fst (main_block w) = Inr ()" and "logs_entry (snd (main_block w)) = Directory"
    and "stdout_faults (snd (main_block w)) = []" and "http (snd (main_block w)) = http w"
proof -
  let ?w' = "w\<lparr>logs_entry := Directory\<rparr>"
  have "main_block w = script ?w'"
  proof (cases "logs_entry w = Absent")
    case True
    then show ?thesis by (simp add: main_block_creates script_is_main_block)
  next
    case False
    with assms(1) have present: "logs_entry w = Directory" by simp
    then have same: "?w' = w" by simp
    have "script w = main_block w"
      using present by (rule script_is_main_block)
    then show ?thesis
      unfolding same by simp
  qed
  moreover have "logs_entry ?w' = Directory" and "stdout_faults ?w' = []"
    using assms(2) by simp_all
  ultimately show "fst (main_block w) = Inr ()" and "logs_entry (snd (main_block w)) = Directory"
    and "stdout_faults (snd (main_block w)) = []" and "http (snd (main_block w)) = http w"
    by (simp_all add: script_quiet)
qed

section \<open>The claims\<close>

text \<open>
  C1. For every URL whose GET completes with a 2xx status and the body \<open>B\<close>,
  \<open>fetch_standards\<close> returns \<open>B\<close> and logs exactly one record, the INFO record
  ``Successfully fetched standards'' (the console accepting the line that goes with it).
\<close>

theorem fetch_standards_success:
  assumes "http w u = Returns r" and "200 \<le> status_code r" and "status_code r < 300"
    and "write_ok (stdout_faults w)"
  shows "fetch_standards u w =
    (Inr (Some (resp_text r)),
     w\<lparr>sent := sent w @ [u],
       console := console w @ [console_line GREEN (lit ''Successfully fetched standards'')],
       stdout_faults := tl (stdout_faults w),
       log_file := log_file w @ [(INFO, lit ''Successfully fetched standards'')]\<rparr>)"
  using assms
  by (simp add: fetch_standards_def try_block_success raise_for_status_2xx)

theorem fetch_standards_success_witness:
  "fst (fetch_standards url (fresh Directory (answers 200 (lit ''OK'') (lit ''# Coding Standards''))))
     = Inr (Some (lit ''# Coding Standards''))
   \<and> log_file (snd (fetch_standards url
        (fresh Directory (answers 200 (lit ''OK'') (lit ''# Coding Standards'')))))
     = [(INFO, lit ''Successfully fetched standards'')]"
  using fetch_standards_success
    [where w = "fresh Directory (answers 200 (lit ''OK'') (lit ''# Coding Standards''))"
       and u = url
       and r = "\<lparr>status_code = 200, reason = lit ''OK'', resp_url = url,
                 resp_text = lit ''# Coding Standards''\<rparr>"]
  by (simp add: fresh_def answers_def)

text \<open>
  C2. For every URL and every exception raised during the request, by the GET itself
  (connection failure, DNS failure) or by \<open>raise_for_status\<close> for the status,
  \<open>fetch_standards\<close> returns \<open>None\<close> and logs exactly one record, at ERROR, made of the
  exception's message and the hint ``Ensure the URL is correct and public.''; no exception
  reaches the caller (the console accepting the line that goes with the record).
\<close>

theorem fetch_standards_failure:
  assumes "http w u = Raises e \<or> (\<exists>r. http w u = Returns r \<and> raise_for_status r = Inl e)"
    and "write_ok (stdout_faults w)"
  shows "fetch_standards u w =
    (Inr None,
     w\<lparr>sent := sent w @ [u],
       console := console w @ [console_line RED
         (lit ''Error fetching standards: '' @ exc_str e
          @ lit ''. Ensure the URL is correct and public.'')],
       stdout_faults := tl (stdout_faults w),
       log_file := log_file w @ [(ERROR,
         lit ''Error fetching standards: '' @ exc_str e
         @ lit ''. Ensure the URL is correct and public.'')]\<rparr>)"
proof -
  have "fetch_standards u w =
    (Inr None,
     w\<lparr>sent := sent w @ [u],
       console := console w @ [console_line RED (error_text e)],
       stdout_faults := tl (stdout_faults w),
       log_file := log_file w @ [(ERROR, error_text e)]\<rparr>)"
    using assms(2)
    by (simp add: fetch_standards_def try_block_raises [OF assms(1)] handler_ok)
  then show ?thesis
    by (simp add: error_text_def)
qed

theorem fetch_standards_failure_witness:
  "fst (fetch_standards url (fresh Directory unreachable)) = Inr None
   \<and> log_file (snd (fetch_standards url (fresh Directory unreachable)))
     = [(ERROR, lit ''Error fetching standards: Failed to resolve host. Ensure the URL is correct and public.'')]
   \<and> fst (fetch_standards url (fresh Directory (answers 404 (lit ''Not Found'') (lit ''404: Not Found''))))
     = Inr None
   \<and> map fst (log_file (snd (fetch_standards url
        (fresh Directory (answers 404 (lit ''Not Found'') (lit ''404: Not Found''))))))
     = [ERROR]"
  using fetch_standards_failure
    [where w = "fresh Directory unreachable" and u = url
       and e = "PyExc ConnectionError (lit ''Failed to resolve host'')"]
    fetch_standards_failure
    [where w = "fresh Directory (answers 404 (lit ''Not Found'') (lit ''404: Not Found''))"
       and u = url
       and e = "PyExc HTTPError (lit ''404 Client Error: Not Found for url: '' @ url)"]
  by (simp add: fresh_def answers_def unreachable_def raise_for_status_def str_status_def lit_def)

text \<open>
  C3, as the script has it. \<open>content\<close> is what \<open>fetch_standards\<close> returned to the
  orchestration and \<open>w2\<close> the world it left. When \<open>content\<close> is a string that is not
  empty, the orchestration logs ``Standards content (first 500 chars):'' at INFO, then
  prints the first 500 characters, then logs ``Script completed''. When \<open>content\<close> is
  \<open>None\<close> or the empty string, neither the message nor the print happens.
\<close>

theorem orchestration_shows_nonempty_result:
  assumes "logs_entry w = Directory" and "stdout_faults w = []"
    and "fetch_standards url (snd (log_message (lit ''Script started'') (lit ''INFO'') w))
         = (Inr content, w2)"
  shows "(\<forall>c. content = Some c \<and> c \<noteq> [] \<longrightarrow>
            script w =
              (Inr (),
               w2\<lparr>console := console w2 @
                    [console_line GREEN (lit ''Standards content (first 500 chars):''),
                     take 500 c,
                     console_line GREEN (lit ''Script completed'')],
                  log_file := log_file w2 @
                    [(INFO, lit ''Standards content (first 500 chars):''),
                     (INFO, lit ''Script completed'')]\<rparr>))
       \<and> (content = None \<or> content = Some [] \<longrightarrow>
            script w =
              (Inr (),
               w2\<lparr>console := console w2 @ [console_line GREEN (lit ''Script completed'')],
                  log_file := log_file w2 @ [(INFO, lit ''Script completed'')]\<rparr>))"
proof -
  let ?w1 = "w\<lparr>console := console w @ [console_line GREEN (lit ''Script started'')],
               log_file := log_file w @ [(INFO, lit ''Script started'')]\<rparr>"
  have started: "log_message (lit ''Script started'') (lit ''INFO'') w = (Inr (), ?w1)"
    using assms(2) by (rule log_info_quiet)
  with assms(3) have fetched: "fetch_standards url ?w1 = (Inr content, w2)"
    by simp
  have "stdout_faults (snd (fetch_standards url ?w1)) = []"
    using assms(2) by (simp add: fetch_quiet_keeps)
  with fetched have quiet: "stdout_faults w2 = []"
    by simp
  have run: "script w =
      and_then (show_content content) (\<lambda>_. log_message (lit ''Script completed'') (lit ''INFO'')) w2"
    using assms(1) started fetched
    by (simp add: script_def main_block_def and_then_def basicConfig_def makedirs_def)
  show ?thesis
    using quiet
    by (auto simp add: run and_then_def show_content_quiet log_info_quiet)
qed

theorem orchestration_shows_nonempty_result_witness:
  "script (fresh Directory (answers 200 (lit ''OK'') (lit ''# Coding Standards''))) =
     (Inr (),
      (fresh Directory (answers 200 (lit ''OK'') (lit ''# Coding Standards'')))
        \<lparr>sent := [url],
         console :=
           [console_line GREEN (lit ''Script started''),
            console_line GREEN (lit ''Successfully fetched standards''),
            console_line GREEN (lit ''Standards content (first 500 chars):''),
            lit ''# Coding Standards'',
            console_line GREEN (lit ''Script completed'')],
         log_file :=
           [(INFO, lit ''Script started''),
            (INFO, lit ''Successfully fetched standards''),
            (INFO, lit ''Standards content (first 500 chars):''),
            (INFO, lit ''Script completed'')]\<rparr>)
   \<and> console (snd (script (fresh Directory unreachable))) =
     [console_line GREEN (lit ''Script started''),
      console_line RED (error_text (PyExc ConnectionError (lit ''Failed to resolve host''))),
      console_line GREEN (lit ''Script completed'')]"
proof -
  let ?ok = "fresh Directory (answers 200 (lit ''OK'') (lit ''# Coding Standards''))"
  let ?r = "\<lparr>status_code = 200, reason = lit ''OK'', resp_url = url,
             resp_text = lit ''# Coding Standards''\<rparr>"
  let ?ok1 = "snd (log_message (lit ''Script started'') (lit ''INFO'') ?ok)"
  let ?down = "fresh Directory unreachable"
  let ?down1 = "snd (log_message (lit ''Script started'') (lit ''INFO'') ?down)"
  let ?e = "PyExc ConnectionError (lit ''Failed to resolve host'')"
  have ok1: "?ok1 = ?ok\<lparr>console := [console_line GREEN (lit ''Script started'')],
                          log_file := [(INFO, lit ''Script started'')]\<rparr>"
    by (simp add: log_info_quiet fresh_def)
  have down1: "?down1 = ?down\<lparr>console := [console_line GREEN (lit ''Script started'')],
                              log_file := [(INFO, lit ''Script started'')]\<rparr>"
    by (simp add: log_info_quiet fresh_def)
  have f_ok: "fetch_standards url ?ok1 =
      (Inr (Some (lit ''# Coding Standards'')), snd (fetch_standards url ?ok1))"
    unfolding ok1
    by (simp add: fetch_quiet_success [where r = ?r] raise_for_status_def fresh_def answers_def)
  have f_down: "fetch_standards url ?down1 = (Inr None, snd (fetch_standards url ?down1))"
    unfolding down1
    by (simp add: fetch_quiet_failure [where e = ?e] fresh_def unreachable_def)
  have not_empty: "lit ''# Coding Standards'' \<noteq> []"
    by (simp add: lit_def)
  have w_ok: "snd (fetch_standards url ?ok1) =
      ?ok\<lparr>sent := [url],
          console := [console_line GREEN (lit ''Script started''),
                      console_line GREEN (lit ''Successfully fetched standards'')],
          log_file := [(INFO, lit ''Script started''),
                       (INFO, lit ''Successfully fetched standards'')]\<rparr>"
    unfolding ok1
    by (simp add: fetch_quiet_success [where r = ?r] raise_for_status_def fresh_def answers_def)
  have w_down: "snd (fetch_standards url ?down1) =
      ?down\<lparr>sent := [url],
          console := [console_line GREEN (lit ''Script started''),
                      console_line RED (error_text ?e)],
          log_file := [(INFO, lit ''Script started''), (ERROR, error_text ?e)]\<rparr>"
    unfolding down1
    by (simp add: fetch_quiet_failure [where e = ?e] fresh_def unreachable_def)
  have a: "script ?ok = (Inr (),
      (snd (fetch_standards url ?ok1))
        \<lparr>console := console (snd (fetch_standards url ?ok1)) @
            [console_line GREEN (lit ''Standards content (first 500 chars):''),
             take 500 (lit ''# Coding Standards''),
             console_line GREEN (lit ''Script completed'')],
         log_file := log_file (snd (fetch_standards url ?ok1)) @
            [(INFO, lit ''Standards content (first 500 chars):''),
             (INFO, lit ''Script completed'')]\<rparr>)"
    using orchestration_shows_nonempty_result [OF _ _ f_ok] not_empty
    by (simp add: fresh_def)
  have b: "script ?down = (Inr (),
      (snd (fetch_standards url ?down1))
        \<lparr>console := console (snd (fetch_standards url ?down1)) @
            [console_line GREEN (lit ''Script completed'')],
         log_file := log_file (snd (fetch_standards url ?down1)) @
            [(INFO, lit ''Script completed'')]\<rparr>)"
    using orchestration_shows_nonempty_result [OF _ _ f_down]
    by (simp add: fresh_def)
  show ?thesis
    unfolding a b w_ok w_down
    by (simp add: lit_def)
qed

theorem empty_result_is_not_shown:
  "fst (fetch_standards url (fresh Directory (answers 200 (lit ''OK'') []))) = Inr (Some [])
   \<and> console (snd (script (fresh Directory (answers 200 (lit ''OK'') [])))) =
       [console_line GREEN (lit ''Script started''),
        console_line GREEN (lit ''Successfully fetched standards''),
        console_line GREEN (lit ''Script completed'')]
   \<and> log_file (snd (script (fresh Directory (answers 200 (lit ''OK'') [])))) =
       [(INFO, lit ''Script started''),
        (INFO, lit ''Successfully fetched standards''),
        (INFO, lit ''Script completed'')]"
  by (simp add: fetch_quiet_success [where r = "\<lparr>status_code = 200, reason = lit ''OK'',
          resp_url = url, resp_text = []\<rparr>"]
        script_success_empty [where r = "\<lparr>status_code = 200, reason = lit ''OK'',
          resp_url = url, resp_text = []\<rparr>"]
        raise_for_status_def fresh_def answers_def)

text \<open>
  C4, as the script has it. For every message and each of the levels INFO, WARNING and
  ERROR, \<open>log_message\<close> returns normally (the console accepting the write), having
  printed one console line in the colour of the level and appended one record at that
  level to the log; the three lines are told apart by colour, green, yellow and red, and
  from the default colour, white. For any other level string the console line is printed
  in white.
\<close>

theorem log_message_levels:
  assumes "write_ok (stdout_faults w)"
  shows "log_message m (lit ''INFO'') w =
           (Inr (), w\<lparr>console := console w @ [console_line GREEN m],
                     stdout_faults := tl (stdout_faults w),
                     log_file := log_file w @ [(INFO, m)]\<rparr>)
       \<and> log_message m (lit ''WARNING'') w =
           (Inr (), w\<lparr>console := console w @ [console_line YELLOW m],
                     stdout_faults := tl (stdout_faults w),
                     log_file := log_file w @ [(WARNING, m)]\<rparr>)
       \<and> log_message m (lit ''ERROR'') w =
           (Inr (), w\<lparr>console := console w @ [console_line RED m],
                     stdout_faults := tl (stdout_faults w),
                     log_file := log_file w @ [(ERROR, m)]\<rparr>)
       \<and> distinct [console_line GREEN m, console_line YELLOW m, console_line RED m,
                    console_line WHITE m]
       \<and> (level \<noteq> lit ''INFO'' \<and> level \<noteq> lit ''WARNING'' \<and> level \<noteq> lit ''ERROR'' \<longrightarrow>
            console (snd (log_message m level w)) = console w @ [console_line WHITE m])"
proof -
  have "distinct [console_line GREEN m, console_line YELLOW m, console_line RED m,
                  console_line WHITE m]"
    by (simp add: console_line_def lit_def)
  moreover have "log_message m (lit ''INFO'') w =
           (Inr (), w\<lparr>console := console w @ [console_line GREEN m],
                     stdout_faults := tl (stdout_faults w),
                     log_file := log_file w @ [(INFO, m)]\<rparr>)"
    using assms
    by (simp add: log_message_ok [where lvl = INFO] lower_levels logging_levels colors_levels)
  moreover have "log_message m (lit ''WARNING'') w =
           (Inr (), w\<lparr>console := console w @ [console_line YELLOW m],
                     stdout_faults := tl (stdout_faults w),
                     log_file := log_file w @ [(WARNING, m)]\<rparr>)"
    using assms
    by (simp add: log_message_ok [where lvl = WARNING] lower_levels logging_levels colors_levels)
  moreover have "log_message m (lit ''ERROR'') w =
           (Inr (), w\<lparr>console := console w @ [console_line RED m],
                     stdout_faults := tl (stdout_faults w),
                     log_file := log_file w @ [(ERROR, m)]\<rparr>)"
    using assms
    by (simp add: log_message_ok [where lvl = ERROR] lower_levels logging_levels colors_levels)
  moreover have "level \<noteq> lit ''INFO'' \<and> level \<noteq> lit ''WARNING'' \<and> level \<noteq> lit ''ERROR'' \<longrightarrow>
            console (snd (log_message m level w)) = console w @ [console_line WHITE m]"
    using assms by (simp add: log_message_console colors_other)
  ultimately show ?thesis
    by blast
qed

theorem log_message_levels_witness:
  "log_file (snd (log_message (lit ''hello'') (lit ''WARNING'') (fresh Directory unreachable)))
     = [(WARNING, lit ''hello'')]
   \<and> console (snd (log_message (lit ''hello'') (lit ''WARNING'') (fresh Directory unreachable)))
     = [console_line YELLOW (lit ''hello'')]
   \<and> console (snd (log_message (lit ''hello'') (lit ''CRITICAL'') (fresh Directory unreachable)))
     = [console_line WHITE (lit ''hello'')]"
  using log_message_levels
    [where w = "fresh Directory unreachable" and m = "lit ''hello''"
       and level = "lit ''CRITICAL''"]
  by (simp add: fresh_def lit_def)

theorem log_message_unknown_level_raises:
  "fst (log_message (lit ''hello'') (lit ''FOO'') (fresh Directory unreachable))
     = Inl (PyExc AttributeError
             (lit ''module '' @ [39] @ lit ''logging'' @ [39] @ lit '' has no attribute ''
              @ [39] @ lit ''foo'' @ [39]))
   \<and> log_file (snd (log_message (lit ''hello'') (lit ''FOO'') (fresh Directory unreachable))) = []
   \<and> fst (log_message (lit ''hello'') (lit ''DEBUG'') (fresh Directory unreachable)) = Inr ()
   \<and> log_file (snd (log_message (lit ''hello'') (lit ''DEBUG'') (fresh Directory unreachable))) = []"
  by (simp add: log_message_def and_then_def print_quiet logging_call_def logging_functions_def
      lower_def lower_char_def fresh_def lit_def)

text \<open>
  C5, as the script has it. For every successful fetch whose body is not empty and has
  the length \<open>L\<close>, the line printed after the message ``Standards content (first 500
  chars):'' is the first \<open>min L 500\<close> characters of the body, as they are. For the empty
  body nothing is printed between the lines of the fetch and of the end of the script.
\<close>

theorem preview_is_truncated_body:
  assumes "logs_entry w = Directory" and "stdout_faults w = []"
    and "http w url = Returns r" and "200 \<le> status_code r" and "status_code r < 300"
  shows "(resp_text r \<noteq> [] \<longrightarrow>
            console (snd (script w)) =
              console w @
                [console_line GREEN (lit ''Script started''),
                 console_line GREEN (lit ''Successfully fetched standards''),
                 console_line GREEN (lit ''Standards content (first 500 chars):''),
                 take (min (length (resp_text r)) 500) (resp_text r),
                 console_line GREEN (lit ''Script completed'')])
       \<and> (resp_text r = [] \<longrightarrow>
            console (snd (script w)) =
              console w @
                [console_line GREEN (lit ''Script started''),
                 console_line GREEN (lit ''Successfully fetched standards''),
                 console_line GREEN (lit ''Script completed'')])"
proof -
  have "take (min (length (resp_text r)) 500) (resp_text r) = take 500 (resp_text r)"
    by (simp add: min_def)
  then show ?thesis
    using assms by (simp add: script_success script_success_empty raise_for_status_2xx)
qed

theorem preview_is_truncated_body_witness:
  "console (snd (script (fresh Directory (answers 200 (lit ''OK'') (replicate 600 35))))) =
     [console_line GREEN (lit ''Script started''),
      console_line GREEN (lit ''Successfully fetched standards''),
      console_line GREEN (lit ''Standards content (first 500 chars):''),
      replicate 500 35,
      console_line GREEN (lit ''Script completed'')]
   \<and> console (snd (script (fresh Directory (answers 204 (lit ''No Content'') [])))) =
     [console_line GREEN (lit ''Script started''),
      console_line GREEN (lit ''Successfully fetched standards''),
      console_line GREEN (lit ''Script completed'')]"
  using preview_is_truncated_body
    [where w = "fresh Directory (answers 200 (lit ''OK'') (replicate 600 35))"
       and r = "\<lparr>status_code = 200, reason = lit ''OK'', resp_url = url,
                 resp_text = replicate 600 35\<rparr>"]
    preview_is_truncated_body
    [where w = "fresh Directory (answers 204 (lit ''No Content'') [])"
       and r = "\<lparr>status_code = 204, reason = lit ''No Content'', resp_url = url,
                 resp_text = []\<rparr>"]
  by (simp add: fresh_fields answers_def)

theorem empty_body_has_no_preview:
  "fst (fetch_standards url (fresh Directory (answers 200 (lit ''OK'') []))) = Inr (Some [])
   \<and> take (min (length ([] :: pystr)) 500) []
       \<notin> set (console (snd (script (fresh Directory (answers 200 (lit ''OK'') [])))))"
  by (simp add: fetch_quiet_success [where r = "\<lparr>status_code = 200, reason = lit ''OK'',
          resp_url = url, resp_text = []\<rparr>"]
        script_success_empty [where r = "\<lparr>status_code = 200, reason = lit ''OK'',
          resp_url = url, resp_text = []\<rparr>"]
        raise_for_status_def fresh_def answers_def console_line_def)

text \<open>
  C6. A run that starts with the directory \<open>logs\<close> in place and a console that accepts
  every write completes, and the exit status is 0, whatever the request did: the server
  \<open>http w\<close> is arbitrary, so this covers the fetch that succeeded and the one that failed.
  A failed fetch shows in the log, as an ERROR record, and on the console, as a red line,
  and in nothing else.
\<close>

theorem exit_status_zero:
  assumes "logs_entry w = Directory" and "stdout_faults w = []"
  shows "fst (script w) = Inr ()
       \<and> exit_status (fst (script w)) = 0
       \<and> (http w url = Raises e \<or> (\<exists>r. http w url = Returns r \<and> raise_for_status r = Inl e) \<longrightarrow>
            script w =
              (Inr (),
               w\<lparr>sent := sent w @ [url],
                 console := console w @
                   [console_line GREEN (lit ''Script started''),
                    console_line RED (error_text e),
                    console_line GREEN (lit ''Script completed'')],
                 log_file := log_file w @
                   [(INFO, lit ''Script started''),
                    (ERROR, error_text e),
                    (INFO, lit ''Script completed'')]\<rparr>))"
  using assms by (simp add: script_quiet script_failure exit_status_def)

theorem exit_status_zero_witness:
  "exit_status (fst (script (fresh Directory (answers 200 (lit ''OK'') (lit ''# Coding Standards''))))) = 0
   \<and> exit_status (fst (script (fresh Directory unreachable))) = 0
   \<and> map fst (log_file (snd (script (fresh Directory unreachable)))) = [INFO, ERROR, INFO]
   \<and> exit_status (fst (script (fresh Directory (answers 500 (lit ''Internal Server Error'') [])))) = 0"
  using exit_status_zero [where w = "fresh Directory (answers 200 (lit ''OK'') (lit ''# Coding Standards''))"]
    exit_status_zero [where w = "fresh Directory unreachable"
      and e = "PyExc ConnectionError (lit ''Failed to resolve host'')"]
    exit_status_zero [where w = "fresh Directory (answers 500 (lit ''Internal Server Error'') [])"]
  by (simp add: fresh_fields exit_status_def unreachable_def)

text \<open>
  C7. The orchestration starts with \<open>os.makedirs("logs", exist_ok=True)\<close>. The call
  creates the directory when it is absent and does nothing, without an error, when it is
  there. It comes first: when \<open>logs\<close> is a file, the block under \<open>__main__\<close> ends with
  \<open>FileExistsError\<close> and has printed, logged and sent nothing. Started without the
  directory, the block creates it and completes, and run again in the world it left it
  completes again. Started with the directory, the block and the whole script complete and
  leave it in place, and so does the run after.
\<close>

theorem makedirs_idempotent:
  "(logs_entry w = Absent \<longrightarrow>
      makedirs (lit ''logs'') True w = (Inr (), w\<lparr>logs_entry := Directory\<rparr>))
   \<and> (logs_entry w = Directory \<longrightarrow> makedirs (lit ''logs'') True w = (Inr (), w))
   \<and> (logs_entry w = RegularFile \<longrightarrow>
        main_block w =
          (Inl (PyExc FileExistsError
                 (lit ''[Errno 17] File exists: '' @ [39] @ lit ''logs'' @ [39])), w))
   \<and> (logs_entry w = Absent \<and> stdout_faults w = [] \<longrightarrow>
        fst (main_block w) = Inr ()
        \<and> logs_entry (snd (main_block w)) = Directory
        \<and> fst (main_block (snd (main_block w))) = Inr ()
        \<and> logs_entry (snd (main_block (snd (main_block w)))) = Directory)
   \<and> (logs_entry w = Directory \<and> stdout_faults w = [] \<longrightarrow>
        fst (main_block w) = Inr ()
        \<and> logs_entry (snd (main_block w)) = Directory
        \<and> fst (main_block (snd (main_block w))) = Inr ()
        \<and> fst (script w) = Inr ()
        \<and> logs_entry (snd (script w)) = Directory
        \<and> fst (script (snd (script w))) = Inr ())"
proof -
  have twice: "fst (main_block (snd (main_block w))) = Inr ()
      \<and> logs_entry (snd (main_block (snd (main_block w)))) = Directory"
    if "logs_entry w = Absent \<or> logs_entry w = Directory" and "stdout_faults w = []"
  proof -
    have "logs_entry (snd (main_block w)) = Directory" and "stdout_faults (snd (main_block w)) = []"
      using that by (simp_all add: main_block_quiet)
    then show ?thesis by (simp add: main_block_quiet)
  qed
  have again: "fst (script (snd (script w))) = Inr ()"
    if "logs_entry w = Directory" and "stdout_faults w = []"
    using that by (simp add: script_quiet)
  show ?thesis
    using twice again
    by (simp add: makedirs_def main_block_blocked main_block_quiet script_quiet)
qed

theorem makedirs_idempotent_witness:
  "logs_entry (snd (makedirs (lit ''logs'') True (fresh Absent unreachable))) = Directory
   \<and> fst (makedirs (lit ''logs'') True (fresh Directory unreachable)) = Inr ()
   \<and> exc_class (projl (fst (main_block (fresh RegularFile unreachable)))) = FileExistsError
   \<and> console (snd (main_block (fresh RegularFile unreachable))) = []
   \<and> fst (main_block (fresh Absent unreachable)) = Inr ()
   \<and> logs_entry (snd (main_block (fresh Absent unreachable))) = Directory
   \<and> fst (main_block (snd (main_block (fresh Absent unreachable)))) = Inr ()
   \<and> fst (script (fresh Directory unreachable)) = Inr ()
   \<and> fst (script (snd (script (fresh Directory unreachable)))) = Inr ()"
  using makedirs_idempotent [where w = "fresh Absent unreachable"]
    makedirs_idempotent [where w = "fresh Directory unreachable"]
    makedirs_idempotent [where w = "fresh RegularFile unreachable"]
  by (simp add: fresh_fields)

text \<open>
  C8. With the server a fixed function of the URL, and a console that accepts every
  write, a second call of \<open>fetch_standards\<close> for the same URL returns what the first one
  returned; the call leaves the server as it was.
\<close>

theorem fetch_standards_twice:
  assumes "stdout_faults w = []"
  shows "fst (fetch_standards u (snd (fetch_standards u w))) = fst (fetch_standards u w)
       \<and> http (snd (fetch_standards u w)) = http w"
proof (cases rule: request_cases [of w u])
  case (ok r)
  let ?w' = "snd (fetch_standards u w)"
  have "stdout_faults ?w' = []" and "http ?w' u = Returns r"
    using assms ok by (simp_all add: fetch_quiet_keeps)
  then have "fst (fetch_standards u ?w') = Inr (Some (resp_text r))"
    using ok by (simp add: fetch_quiet_success)
  moreover have "fst (fetch_standards u w) = Inr (Some (resp_text r))"
    using assms ok by (simp add: fetch_quiet_success)
  ultimately show ?thesis
    using assms by (simp add: fetch_quiet_keeps)
next
  case (failed e)
  let ?w' = "snd (fetch_standards u w)"
  have "stdout_faults ?w' = []"
    and "http ?w' u = Raises e \<or> (\<exists>r. http ?w' u = Returns r \<and> raise_for_status r = Inl e)"
    using assms failed by (simp_all add: fetch_quiet_keeps)
  then have "fst (fetch_standards u ?w') = Inr None"
    by (simp add: fetch_quiet_failure)
  moreover have "fst (fetch_standards u w) = Inr None"
    using assms failed by (simp add: fetch_quiet_failure)
  ultimately show ?thesis
    using assms by (simp add: fetch_quiet_keeps)
qed

theorem fetch_standards_twice_witness:
  "fst (fetch_standards url (snd (fetch_standards url
      (fresh Directory (answers 200 (lit ''OK'') (lit ''# Coding Standards''))))))
     = Inr (Some (lit ''# Coding Standards''))
   \<and> fst (fetch_standards url (fresh Directory (answers 200 (lit ''OK'') (lit ''# Coding Standards''))))
     = Inr (Some (lit ''# Coding Standards''))"
  using fetch_standards_twice
    [where w = "fresh Directory (answers 200 (lit ''OK'') (lit ''# Coding Standards''))"
       and u = url]
  by (simp add: fetch_quiet_success [where r = "\<lparr>status_code = 200, reason = lit ''OK'',
          resp_url = url, resp_text = lit ''# Coding Standards''\<rparr>"]
        raise_for_status_def fresh_def answers_def)

text \<open>
  C9. The log file is opened by the configuration of line 20, when the module is loaded
  and before the block under \<open>__main__\<close>. In a working directory without \<open>logs\<close> that
  raises \<open>FileNotFoundError\<close>, which nothing handles: the run ends there with a non-zero
  exit status and the world as it was, so the directory is not created, ``Script started''
  is neither printed nor logged and no request is sent.
\<close>

theorem startup_fails_without_logs:
  assumes "logs_entry w = Absent"
  shows "script w =
      (Inl (PyExc FileNotFoundError
             (lit ''[Errno 2] No such file or directory: '' @ [39] @ cwd w @ lit ''/''
              @ lit ''logs/fetch_github_standards.log'' @ [39])), w)
    \<and> exit_status (fst (script w)) = 1"
  using assms by (simp add: script_def and_then_def basicConfig_def exit_status_def)

theorem startup_fails_without_logs_witness:
  "exc_class (projl (fst (script (fresh Absent (answers 200 (lit ''OK'') (lit ''# Coding Standards''))))))
     = FileNotFoundError
   \<and> logs_entry (snd (script (fresh Absent (answers 200 (lit ''OK'') (lit ''# Coding Standards'')))))
     = Absent
   \<and> console (snd (script (fresh Absent (answers 200 (lit ''OK'') (lit ''# Coding Standards''))))) = []
   \<and> log_file (snd (script (fresh Absent (answers 200 (lit ''OK'') (lit ''# Coding Standards''))))) = []
   \<and> sent (snd (script (fresh Absent (answers 200 (lit ''OK'') (lit ''# Coding Standards''))))) = []
   \<and> exit_status (fst (script (fresh Absent (answers 200 (lit ''OK'') (lit ''# Coding Standards''))))) = 1"
  using startup_fails_without_logs
    [where w = "fresh Absent (answers 200 (lit ''OK'') (lit ''# Coding Standards''))"]
  by (simp add: fresh_fields exit_status_def)

text \<open>
  C10. The handler of \<open>fetch_standards\<close> covers the logging of the success record too:
  when the GET completed with a 2xx status and the logging of the success record raises
  \<open>e\<close>, \<open>fetch_standards\<close> returns \<open>None\<close> and logs an ERROR record for \<open>e\<close>, and no success
  record (the console accepting the line of the ERROR record).
\<close>

theorem fetch_standards_success_log_fault:
  assumes "http w u = Returns r" and "200 \<le> status_code r" and "status_code r < 300"
    and "stdout_faults w = Some e # fs" and "write_ok fs"
  shows "fetch_standards u w =
    (Inr None,
     w\<lparr>sent := sent w @ [u],
       console := console w @ [console_line RED (error_text e)],
       stdout_faults := tl fs,
       log_file := log_file w @ [(ERROR, error_text e)]\<rparr>)"
  using assms
  by (simp add: fetch_standards_def try_block_log_fault raise_for_status_2xx handler_ok)

theorem fetch_standards_success_log_fault_witness:
  "fst (fetch_standards url
     ((fresh Directory (answers 200 (lit ''OK'') (lit ''# Coding Standards'')))
        \<lparr>stdout_faults := [Some (PyExc BrokenPipeError (lit ''[Errno 32] Broken pipe''))]\<rparr>))
     = Inr None
   \<and> log_file (snd (fetch_standards url
     ((fresh Directory (answers 200 (lit ''OK'') (lit ''# Coding Standards'')))
        \<lparr>stdout_faults := [Some (PyExc BrokenPipeError (lit ''[Errno 32] Broken pipe''))]\<rparr>)))
     = [(ERROR, error_text (PyExc BrokenPipeError (lit ''[Errno 32] Broken pipe'')))]"
  using fetch_standards_success_log_fault
    [where w = "(fresh Directory (answers 200 (lit ''OK'') (lit ''# Coding Standards'')))
        \<lparr>stdout_faults := [Some (PyExc BrokenPipeError (lit ''[Errno 32] Broken pipe''))]\<rparr>"
       and u = url
       and r = "\<lparr>status_code = 200, reason = lit ''OK'', resp_url = url,
                 resp_text = lit ''# Coding Standards''\<rparr>"
       and e = "PyExc BrokenPipeError (lit ''[Errno 32] Broken pipe'')"
       and fs = "[]"]
  by (simp add: fresh_def answers_def)

end
